theory Spec2Isabelle
  imports Main "HOL-Library.Multiset" "HOL-Library.Finite_Map"
begin

section \<open>Parsed documents\<close>

text \<open>
  The values \<^verbatim>\<open>yaml.safe_load\<close> hands to \<^verbatim>\<open>check_config_drift\<close>: scalars,
  sequences and mappings. Mapping keys are strings; a mapping is an association list read
  with \<^const>\<open>map_of\<close>. Floating-point scalars are left out.
\<close>

datatype scalar = SNull | SBool bool | SInt int | SStr string

datatype yaml = Scalar scalar | Seq "yaml list" | Map "(string \<times> yaml) list"

text \<open>
  Modelled from the spec: the value the loader yields for an empty file. Section 4.1 asks
  for "an explicit empty document value" that is "treated as empty map for comparison
  purposes": the mapping without keys. The loader is PyYAML, which is not part of the
  sources, and lines 71 to 76 hand its result to the comparison as it is.
\<close>

definition empty_document :: yaml where
  "empty_document = Map []"

section \<open>Exceptions, log records and observable actions\<close>

text \<open>
  Every exception class below derives from Python's \<^verbatim>\<open>Exception\<close>, so the handler
  of \<^verbatim>\<open>check_config_drift\<close> (line 88) catches each of them.
\<close>

datatype exn =
    KeyError string
  | OSError string
  | YAMLError string
  | ValueError string
  | OverflowError string
  | OtherError string

definition quoted :: "string \<Rightarrow> string" where
  "quoted s = [CHR 0x27] @ s @ [CHR 0x27]"

text \<open>\<^verbatim>\<open>str(e)\<close>, as the f-strings of lines 90 and 166 render an exception.\<close>

fun exn_str :: "exn \<Rightarrow> string" where
  "exn_str (KeyError k) = quoted k"
| "exn_str (OSError m) = m"
| "exn_str (YAMLError m) = m"
| "exn_str (ValueError m) = m"
| "exn_str (OverflowError m) = m"
| "exn_str (OtherError m) = m"

datatype level = INFO | WARNING | ERROR

text \<open>
  What a run does that can be seen from outside, in order: the existence test of the
  baseline path, the opening and parsing of a file, a log record, a directory scheduled
  for watching, and the start and stop of the observer.
\<close>

datatype action =
    PathExists string
  | OpenLoad string
  | Emit level string
  | Schedule string
  | ObserverStart
  | ObserverStop

text \<open>
  The filesystem as one check or the start-up sees it. \<open>safe_load p\<close> is the result of
  \<^verbatim>\<open>with open(p) as f: yaml.safe_load(f)\<close>: the parsed document, or the exception
  raised by the open or by the parser. It is independent of \<open>path_exists\<close>, since the
  file may change between the two calls.
\<close>

record fs =
  path_exists :: "string \<Rightarrow> bool"
  path_isdir :: "string \<Rightarrow> bool"
  path_isfile :: "string \<Rightarrow> bool"
  safe_load :: "string \<Rightarrow> exn + yaml"
  abspath :: "string \<Rightarrow> string"

text \<open>
  The comparison library as the check uses it (line 76 to 80): \<open>DeepDiff b c\<close> is the
  call \<^verbatim>\<open>DeepDiff(b, c, ignore_order=True)\<close>, \<open>truthy d\<close> is \<^verbatim>\<open>bool(d)\<close>
  and \<open>render d\<close> is the text the f-string of line 80 makes of the result. The library is
  not part of the sources, so the check takes it as a parameter.
\<close>

record 'd differ =
  DeepDiff :: "yaml \<Rightarrow> yaml \<Rightarrow> exn + 'd"
  truthy :: "'d \<Rightarrow> bool"
  render :: "'d \<Rightarrow> exn + string"

section \<open>The change handler\<close>

text \<open>The attributes of \<^verbatim>\<open>ConfigChangeHandler\<close> (lines 38 to 40).\<close>

record handler =
  config_files :: "string \<rightharpoonup> string"
  baseline_dir :: string
  version_control :: bool

record event =
  is_directory :: bool
  src_path :: string

text \<open>
  The state of the monitor: the handler object and everything done so far. No method
  assigns to an attribute of the handler; the record carries it so that this can be
  stated.
\<close>

record monitor =
  handler :: handler
  trace :: "action list"

text \<open>\<^verbatim>\<open>os.path.join(a, p)\<close> of the POSIX path module, for two components.\<close>

definition path_join :: "string \<Rightarrow> string \<Rightarrow> string" where
  "path_join a p =
     (if take 1 p = ''/'' then p
      else if a = [] \<or> last a = CHR ''/'' then a @ p
      else a @ ''/'' @ p)"

text \<open>
  The body of the \<^verbatim>\<open>try\<close> block (lines 64 to 86): the actions performed, and the
  exception that ended the block if one was raised. The current file is opened and parsed
  before the baseline (lines 71 to 74).
\<close>

definition try_body :: "'d differ \<Rightarrow> handler \<Rightarrow> fs \<Rightarrow> string \<Rightarrow> action list \<times> exn option" where
  "try_body lib h fsys filepath =
     (case config_files h filepath of
        None \<Rightarrow> ([], Some (KeyError filepath))
      | Some config_name \<Rightarrow>
          let baseline_path = path_join (baseline_dir h) (config_name @ ''.yaml'') in
          if \<not> path_exists fsys baseline_path then
            ([PathExists baseline_path,
              Emit ERROR (''Baseline file not found: '' @ baseline_path)], None)
          else
            (case safe_load fsys filepath of
               Inl e \<Rightarrow> ([PathExists baseline_path, OpenLoad filepath], Some e)
             | Inr current_config \<Rightarrow>
                 let loads = [PathExists baseline_path, OpenLoad filepath, OpenLoad baseline_path] in
                 (case safe_load fsys baseline_path of
                    Inl e \<Rightarrow> (loads, Some e)
                  | Inr baseline_config \<Rightarrow>
                      (case DeepDiff lib baseline_config current_config of
                         Inl e \<Rightarrow> (loads, Some e)
                       | Inr diff \<Rightarrow>
                           if truthy lib diff then
                             (case render lib diff of
                                Inl e \<Rightarrow> (loads, Some e)
                              | Inr shown \<Rightarrow>
                                  (loads @
                                   [Emit WARNING
                                     (''Configuration drift detected in '' @ config_name @
                                      '' ('' @ filepath @ ''):\<newline>'' @ shown)], None))
                           else
                             (loads @
                              [Emit INFO
                                (''No configuration drift detected in '' @ config_name @ ''.'')],
                              None)))))"

text \<open>The record the handler of line 88 logs (lines 89 to 92).\<close>

definition error_record :: "string \<Rightarrow> exn \<Rightarrow> action" where
  "error_record filepath e =
     Emit ERROR (''Error checking configuration drift for '' @ filepath @ '': '' @ exn_str e)"

text \<open>
  \<^verbatim>\<open>check_config_drift\<close> (lines 56 to 92): the \<^verbatim>\<open>try\<close> block, and the handler of
  line 88, which logs any exception at error severity and returns.
\<close>

definition check_config_drift :: "'d differ \<Rightarrow> fs \<Rightarrow> string \<Rightarrow> monitor \<Rightarrow> monitor" where
  "check_config_drift lib fsys filepath s =
     (case try_body lib (handler s) fsys filepath of
        (acts, None) \<Rightarrow> s\<lparr>trace := trace s @ acts\<rparr>
      | (acts, Some e) \<Rightarrow> s\<lparr>trace := trace s @ acts @ [error_record filepath e]\<rparr>)"

text \<open>\<^verbatim>\<open>on_modified\<close> (lines 43 to 54).\<close>

definition on_modified :: "'d differ \<Rightarrow> fs \<Rightarrow> event \<Rightarrow> monitor \<Rightarrow> monitor" where
  "on_modified lib fsys ev s =
     (if is_directory ev then s
      else if src_path ev \<in> dom (config_files (handler s))
           then check_config_drift lib fsys (src_path ev) s
           else s)"

section \<open>Start-up and the run loop\<close>

record args =
  arg_config_files :: "string list"
  arg_config_names :: "string list"
  arg_baseline_dir :: string
  arg_interval :: int
  arg_version_control :: bool
  arg_debug :: bool

text \<open>\<^verbatim>\<open>validate_input\<close> (lines 140 to 152): the first failing test raises.\<close>

definition validate_input :: "fs \<Rightarrow> args \<Rightarrow> exn + unit" where
  "validate_input fsys a =
     (if length (arg_config_files a) \<noteq> length (arg_config_names a) then
        Inl (ValueError
          ''Number of configuration files and configuration names must be the same.'')
      else if \<not> path_isdir fsys (arg_baseline_dir a) then
        Inl (ValueError
          (''Baseline directory '' @ quoted (arg_baseline_dir a) @ '' does not exist.''))
      else
        (case find (\<lambda>f. \<not> path_isfile fsys f) (arg_config_files a) of
           Some f \<Rightarrow>
             Inl (ValueError (''Configuration file '' @ quoted f @ '' does not exist.''))
         | None \<Rightarrow> Inr ()))"

text \<open>\<^verbatim>\<open>dict(zip(files, names))\<close> (line 169): a later pair replaces an earlier one.\<close>

definition dict_zip :: "string list \<Rightarrow> string list \<Rightarrow> (string \<rightharpoonup> string)" where
  "dict_zip files names = fold (\<lambda>(k, v) m. m(k \<mapsto> v)) (zip files names) Map.empty"

text \<open>\<^verbatim>\<open>os.path.dirname\<close> of the POSIX path module.\<close>

definition dirname :: "string \<Rightarrow> string" where
  "dirname p =
     (let head = rev (dropWhile (\<lambda>c. c \<noteq> CHR ''/'') (rev p)) in
      if head \<noteq> [] \<and> \<not> list_all (\<lambda>c. c = CHR ''/'') head
      then rev (dropWhile (\<lambda>c. c = CHR ''/'') (rev head))
      else head)"

text \<open>The loop of lines 177 to 183, with the set of directories already watched.\<close>

fun watch_all :: "fs \<Rightarrow> string list \<Rightarrow> string list \<Rightarrow> action list" where
  "watch_all fsys [] watched = []"
| "watch_all fsys (config_file # rest) watched =
     (let directory = dirname (abspath fsys config_file) in
      if directory \<in> set watched then watch_all fsys rest watched
      else [Schedule directory, Emit INFO (''Watching directory: '' @ directory)] @
           watch_all fsys rest (directory # watched))"

text \<open>
  What reaches the running monitor: a modification event, with the filesystem as it is
  when the event is handled, or the keyboard interrupt that ends the loop of line 189.
\<close>

datatype signal = Notify fs event | Interrupt

text \<open>
  The monitor while the main thread sleeps (lines 188 to 192). The loop has no exit of
  its own: when the signals run out before an interrupt the monitor is still running,
  which is the value \<open>None\<close>.
\<close>

fun run_loop :: "'d differ \<Rightarrow> signal list \<Rightarrow> monitor \<Rightarrow> monitor option" where
  "run_loop lib [] s = None"
| "run_loop lib (Interrupt # rest) s = Some s"
| "run_loop lib (Notify fsys ev # rest) s = run_loop lib rest (on_modified lib fsys ev s)"


text \<open>The handler \<^verbatim>\<open>main\<close> constructs (lines 169 to 173).\<close>

definition make_handler :: "args \<Rightarrow> handler" where
  "make_handler a =
     \<lparr>config_files = dict_zip (arg_config_files a) (arg_config_names a),
      baseline_dir = arg_baseline_dir a,
      version_control = arg_version_control a\<rparr>"


section \<open>Reading a trace\<close>

text \<open>The log records of a trace.\<close>

fun log_of :: "action list \<Rightarrow> (level \<times> string) list" where
  "log_of [] = []"
| "log_of (Emit l m # rest) = (l, m) # log_of rest"
| "log_of (PathExists p # rest) = log_of rest"
| "log_of (OpenLoad p # rest) = log_of rest"
| "log_of (Schedule d # rest) = log_of rest"
| "log_of (ObserverStart # rest) = log_of rest"
| "log_of (ObserverStop # rest) = log_of rest"



section \<open>The comparator of the specification\<close>

text \<open>
  Modelled from the spec: the structural comparison that line 76 delegates to the
  DeepDiff library, which is not part of the sources. The definitions follow section 4.2:
  scalars are equal when kind and value agree, and differ by \<open>Changed\<close> or, across kinds,
  by \<open>TypeChanged\<close>; mappings are compared over the union of their keys (\<open>Added\<close>,
  \<open>Removed\<close>, or the comparison of the two values); sequences are compared as unordered
  collections in which membership and multiplicity count; values of different shape give
  \<open>TypeChanged\<close>. An entry is the record \<open>DiffEntry\<close> of section 3.
\<close>

text \<open>
  Modelled from the spec: a document without the order section 4.2 declares irrelevant.
  A sequence is the multiset of its members and a mapping is the finite map from its keys,
  at every depth. Two members of a sequence count as the same member when they are equal
  in this reading.
\<close>

datatype shape = Atom scalar | Bag "shape multiset" | Dict "(string, shape) fmap"

primrec canon :: "yaml \<Rightarrow> shape" where
  "canon (Scalar a) = Atom a"
| "canon (Seq xs) = Bag (mset (map canon xs))"
| "canon (Map m) = Dict (fmap_of_list (map (map_prod id canon) m))"

datatype diff_kind = Added | Removed | Changed | TypeChanged

datatype diff_entry =
  DiffEntry (path: "string list") (kind: diff_kind) (oldValue: "yaml option")
    (newValue: "yaml option")

fun scalar_kind :: "scalar \<Rightarrow> nat" where
  "scalar_kind SNull = 0"
| "scalar_kind (SBool b) = 1"
| "scalar_kind (SInt i) = 2"
| "scalar_kind (SStr s) = 3"

text \<open>
  The members of \<open>xs\<close> left over when each member of \<open>ys\<close> cancels the first member
  of \<open>xs\<close> that has the same image under \<open>f\<close>.
\<close>

fun remove1_by :: "('a \<Rightarrow> bool) \<Rightarrow> 'a list \<Rightarrow> 'a list" where
  "remove1_by P [] = []"
| "remove1_by P (z # zs) = (if P z then zs else z # remove1_by P zs)"

definition unmatched :: "('a \<Rightarrow> 'b) \<Rightarrow> 'a list \<Rightarrow> 'a list \<Rightarrow> 'a list" where
  "unmatched f xs ys = fold (\<lambda>y zs. remove1_by (\<lambda>z. f z = f y) zs) ys xs"

lemma size_lookup:
  "map_of m k = Some v \<Longrightarrow> size v < Suc (size_list (size_prod (\<lambda>_. 0) size) m)"
  by (induction m) (auto split: if_splits)

function (sequential) compare_at :: "string list \<Rightarrow> yaml \<Rightarrow> yaml \<Rightarrow> diff_entry list" where
  "compare_at p (Scalar a) (Scalar b) =
     (if a = b then []
      else if scalar_kind a = scalar_kind b
           then [DiffEntry p Changed (Some (Scalar a)) (Some (Scalar b))]
           else [DiffEntry p TypeChanged (Some (Scalar a)) (Some (Scalar b))])"
| "compare_at p (Seq xs) (Seq ys) =
     map (\<lambda>x. DiffEntry p Removed (Some x) None) (unmatched canon xs ys) @
     map (\<lambda>y. DiffEntry p Added None (Some y)) (unmatched canon ys xs)"
| "compare_at p (Map m1) (Map m2) =
     concat (map (\<lambda>k.
       case map_of m1 k of
         Some v \<Rightarrow>
           (case map_of m2 k of
              Some v' \<Rightarrow> compare_at (p @ [k]) v v'
            | None \<Rightarrow> [DiffEntry (p @ [k]) Removed (Some v) None])
       | None \<Rightarrow>
           (case map_of m2 k of
              Some v' \<Rightarrow> [DiffEntry (p @ [k]) Added None (Some v')]
            | None \<Rightarrow> []))
       (remdups (map fst m1 @ map fst m2)))"
| "compare_at p b c = [DiffEntry p TypeChanged (Some b) (Some c)]"
  by pat_completeness auto
termination
  by (relation "measure (\<lambda>(p, b, c). size b)") (auto dest: size_lookup)

definition compare :: "yaml \<Rightarrow> yaml \<Rightarrow> diff_entry list" where
  "compare baseline current = compare_at [] baseline current"

text \<open>
  Modelled from the spec: the rendering of a diff in the drift report (section 4.4, "full
  diff rendering"): one line per entry, its kind and its path.
\<close>

fun kind_name :: "diff_kind \<Rightarrow> string" where
  "kind_name Added = ''Added''"
| "kind_name Removed = ''Removed''"
| "kind_name Changed = ''Changed''"
| "kind_name TypeChanged = ''TypeChanged''"

definition render_diff :: "diff_entry list \<Rightarrow> string" where
  "render_diff d =
     concat (map (\<lambda>e. kind_name (kind e) @ '' at root'' @
                       concat (map (\<lambda>k. ''/'' @ k) (path e)) @ ''\<newline>'') d)"

text \<open>The comparator of the specification in the place of the library.\<close>

definition spec_differ :: "diff_entry list differ" where
  "spec_differ =
     \<lparr>DeepDiff = (\<lambda>baseline current. Inr (compare baseline current)),
      truthy = (\<lambda>d. d \<noteq> []),
      render = (\<lambda>d. Inr (render_diff d))\<rparr>"

section \<open>A concrete installation\<close>

text \<open>
  The example of lines 199 to 211: \<^verbatim>\<open>app.conf\<close> is tracked under the name
  \<^verbatim>\<open>app_config\<close>, with its baseline in the directory \<^verbatim>\<open>baseline\<close>. A filesystem is
  given by the result of loading each of its files and by its directories; the working
  directory is \<^verbatim>\<open>/srv\<close>.
\<close>

definition fs_of :: "(string \<times> (exn + yaml)) list \<Rightarrow> string list \<Rightarrow> fs" where
  "fs_of files dirs =
     \<lparr>path_exists = (\<lambda>p. map_of files p \<noteq> None \<or> List.member dirs p),
      path_isdir = (\<lambda>p. List.member dirs p),
      path_isfile = (\<lambda>p. map_of files p \<noteq> None),
      safe_load = (\<lambda>p. case map_of files p of
                          Some r \<Rightarrow> r
                        | None \<Rightarrow> Inl (OSError (''No such file or directory: '' @ quoted p))),
      abspath = (\<lambda>p. if take 1 p = ''/'' then p else ''/srv/'' @ p)\<rparr>"

definition demo_args :: args where
  "demo_args =
     \<lparr>arg_config_files = [''app.conf''], arg_config_names = [''app_config''],
      arg_baseline_dir = ''baseline'', arg_interval = 1, arg_version_control = False,
      arg_debug = False\<rparr>"

definition demo_monitor :: monitor where
  "demo_monitor = \<lparr>handler = make_handler demo_args, trace = []\<rparr>"

definition value1 :: yaml where
  "value1 = Map [(''setting1'', Scalar (SStr ''value1''))]"

definition value2 :: yaml where
  "value2 = Map [(''setting1'', Scalar (SStr ''value2''))]"

text \<open>The installation with the given current document and baseline document.\<close>

definition demo_fs :: "exn + yaml \<Rightarrow> exn + yaml \<Rightarrow> fs" where
  "demo_fs current baseline =
     fs_of [(''app.conf'', current), (''baseline/app_config.yaml'', baseline)] [''baseline'']"

text \<open>The installation without the baseline file.\<close>

definition demo_fs_no_baseline :: fs where
  "demo_fs_no_baseline = fs_of [(''app.conf'', Inr value1)] [''baseline'']"

definition app_conf_modified :: event where
  "app_conf_modified = \<lparr>is_directory = False, src_path = ''app.conf''\<rparr>"

text \<open>A file the parser rejects, and a library whose result cannot be formatted.\<close>

definition malformed :: "exn + yaml" where
  "malformed = Inl (YAMLError ''mapping values are not allowed here'')"

definition unrenderable :: "diff_entry list differ" where
  "unrenderable = spec_differ\<lparr>render := (\<lambda>d. Inl (OtherError ''cannot format''))\<rparr>"

text \<open>
  The installation with the tracked file equal to its baseline, two modification events
  for the tracked file followed by the interrupt, and what one check of that file does.
\<close>

definition in_sync_fs :: fs where
  "in_sync_fs = demo_fs (Inr value1) (Inr value1)"



text \<open>
  The tracked file under its absolute path, and a directory event under the tracked path.
\<close>

definition app_conf_absolute :: event where
  "app_conf_absolute = \<lparr>is_directory = False, src_path = ''/srv/app.conf''\<rparr>"

definition app_conf_directory :: event where
  "app_conf_directory = \<lparr>is_directory = True, src_path = ''app.conf''\<rparr>"

text \<open>
  Two documents that differ only in the order of a sequence, of a sequence inside it and
  of the keys of a mapping inside it.
\<close>

definition nested1 :: yaml where
  "nested1 = Map [(''rules'',
     Seq [Seq [Scalar (SInt 1), Scalar (SInt 2)],
          Map [(''a'', Scalar SNull), (''b'', Scalar (SInt 1))]])]"

definition nested2 :: yaml where
  "nested2 = Map [(''rules'',
     Seq [Map [(''b'', Scalar (SInt 1)), (''a'', Scalar SNull)],
          Seq [Scalar (SInt 2), Scalar (SInt 1)]])]"

section \<open>Auxiliary facts\<close>

lemma mset_remove1_by:
  "image_mset f (mset (remove1_by (\<lambda>z. f z = c) zs)) = image_mset f (mset zs) - {#c#}"
  by (induction zs) auto

lemma mset_unmatched:
  "image_mset f (mset (unmatched f xs ys)) = image_mset f (mset xs) - image_mset f (mset ys)"
  unfolding unmatched_def
  by (induction ys arbitrary: xs) (simp_all add: mset_remove1_by)

lemma unmatched_empty_iff:
  "unmatched f xs ys = [] \<longleftrightarrow> image_mset f (mset xs) \<subseteq># image_mset f (mset ys)"
proof -
  have "unmatched f xs ys = [] \<longleftrightarrow> image_mset f (mset (unmatched f xs ys)) = {#}"
    by simp
  also have "\<dots> \<longleftrightarrow> image_mset f (mset xs) \<subseteq># image_mset f (mset ys)"
    by (simp only: mset_unmatched Diff_eq_empty_iff_mset)
  finally show ?thesis .
qed

lemma compare_seq_empty_iff:
  "compare_at p (Seq xs) (Seq ys) = [] \<longleftrightarrow>
     image_mset canon (mset xs) = image_mset canon (mset ys)"
  by (auto simp: unmatched_empty_iff)

lemma canon_map_eq_iff:
  "canon (Map m1) = canon (Map m2) \<longleftrightarrow>
     (\<forall>k. map_option canon (map_of m1 k) = map_option canon (map_of m2 k))"
proof -
  have look: "fmlookup (fmap_of_list (map (map_prod id canon) m)) k =
      map_option canon (map_of m k)" for m k
    by (induction m) (auto simp: fmlookup_of_list)
  show ?thesis
  proof
    assume "canon (Map m1) = canon (Map m2)"
    then have "fmap_of_list (map (map_prod id canon) m1) =
        fmap_of_list (map (map_prod id canon) m2)"
      by simp
    then have "fmlookup (fmap_of_list (map (map_prod id canon) m1)) k =
        fmlookup (fmap_of_list (map (map_prod id canon) m2)) k" for k
      by simp
    then show "\<forall>k. map_option canon (map_of m1 k) = map_option canon (map_of m2 k)"
      by (simp add: look)
  next
    assume "\<forall>k. map_option canon (map_of m1 k) = map_option canon (map_of m2 k)"
    then have "fmap_of_list (map (map_prod id canon) m1) =
        fmap_of_list (map (map_prod id canon) m2)"
      by (intro fmap_ext) (simp add: look)
    then show "canon (Map m1) = canon (Map m2)"
      by simp
  qed
qed

lemma keys_lookup:
  "k \<in> set (remdups (map fst m1 @ map fst m2)) \<longleftrightarrow> map_of m1 k \<noteq> None \<or> map_of m2 k \<noteq> None"
  by (auto simp: map_of_eq_None_iff)

text \<open>The diff of two documents is empty exactly when they are equal up to order.\<close>

lemma compare_at_empty_iff: "compare_at p a b = [] \<longleftrightarrow> canon a = canon b"
proof (induction a arbitrary: p b)
  case (Scalar x)
  show ?case by (cases b) simp_all
next
  case (Seq xs)
  show ?case
  proof (cases b)
    case (Seq ys)
    then show ?thesis by (simp only: compare_seq_empty_iff) simp
  qed simp_all
next
  case (Map m1)
  show ?case
  proof (cases b)
    case (Scalar x)
    then show ?thesis by simp
  next
    case (Seq ys)
    then show ?thesis by simp
  next
    case (Map m2)
    have ih: "compare_at q v w = [] \<longleftrightarrow> canon v = canon w"
      if "map_of m1 k = Some v" for k v q w
    proof -
      from that have "(k, v) \<in> set m1" by (rule map_of_SomeD)
      then show ?thesis using Map.IH by force
    qed
    let ?entry = "\<lambda>k. case map_of m1 k of
         Some v \<Rightarrow>
           (case map_of m2 k of
              Some v' \<Rightarrow> compare_at (p @ [k]) v v'
            | None \<Rightarrow> [DiffEntry (p @ [k]) Removed (Some v) None])
       | None \<Rightarrow>
           (case map_of m2 k of
              Some v' \<Rightarrow> [DiffEntry (p @ [k]) Added None (Some v')]
            | None \<Rightarrow> [])"
    have entry: "?entry k = [] \<longleftrightarrow>
        map_option canon (map_of m1 k) = map_option canon (map_of m2 k)" for k
      by (cases "map_of m1 k"; cases "map_of m2 k") (simp_all add: ih)
    have "compare_at p (Map m1) (Map m2) = [] \<longleftrightarrow>
        (\<forall>k \<in> set (remdups (map fst m1 @ map fst m2)). ?entry k = [])"
      by simp
    also have "\<dots> \<longleftrightarrow> (\<forall>k. ?entry k = [])"
    proof -
      have "?entry k = []" if "k \<notin> set (remdups (map fst m1 @ map fst m2))" for k
      proof -
        from that have "map_of m1 k = None" "map_of m2 k = None"
          using keys_lookup [of k m1 m2] by auto
        then show ?thesis by simp
      qed
      then show ?thesis by blast
    qed
    also have "\<dots> \<longleftrightarrow> canon (Map m1) = canon (Map m2)"
      by (simp only: entry canon_map_eq_iff)
    finally show ?thesis
      using Map by simp
  qed
qed

lemma compare_at_refl: "compare_at p d d = []"
  by (simp add: compare_at_empty_iff)

lemma compare_singleton_map:
  "compare (Map [(k, a)]) (Map [(k, b)]) = compare_at [k] a b"
  by (simp add: compare_def)

lemma log_of_append: "log_of (xs @ ys) = log_of xs @ log_of ys"
  by (induction xs rule: log_of.induct) simp_all

lemma handler_check: "handler (check_config_drift lib fsys p s) = handler s"
  by (simp add: check_config_drift_def split: prod.splits option.splits)

lemma check_logs_once:
  "length (log_of (trace (check_config_drift lib fsys p s))) = Suc (length (log_of (trace s)))"
  by (simp add: check_config_drift_def try_body_def error_record_def log_of_append Let_def
      split: prod.splits option.splits sum.splits)




lemma check_changes_state: "check_config_drift lib fsys p s \<noteq> s"
proof
  assume "check_config_drift lib fsys p s = s"
  then have "length (log_of (trace (check_config_drift lib fsys p s))) = length (log_of (trace s))"
    by simp
  then show False by (simp add: check_logs_once)
qed




lemma dom_fold_upd:
  "dom (fold (\<lambda>(k, v) m. m(k \<mapsto> v)) ps m0) = dom m0 \<union> fst ` set ps"
  by (induction ps arbitrary: m0) auto

lemma dom_dict_zip:
  "length files = length names \<Longrightarrow> dom (dict_zip files names) = set files"
  by (simp add: dict_zip_def dom_fold_upd flip: set_map)

lemma watch_all_covers:
  "f \<in> set files \<Longrightarrow>
   dirname (abspath fsys f) \<in> set watched \<or>
   Schedule (dirname (abspath fsys f)) \<in> set (watch_all fsys files watched)"
  by (induction fsys files watched rule: watch_all.induct) (auto simp: Let_def)


lemma validate_input_error:
  "validate_input fsys a \<noteq> Inr () \<Longrightarrow> \<exists>m. validate_input fsys a = Inl (ValueError m)"
  by (auto simp: validate_input_def split: option.splits if_splits)

text \<open>The concrete installation, evaluated.\<close>

lemma demo_handler_simps:
  "config_files (handler demo_monitor) ''app.conf'' = Some ''app_config''"
  "baseline_dir (handler demo_monitor) = ''baseline''"
  "trace demo_monitor = []"
  by (simp_all add: demo_monitor_def make_handler_def demo_args_def dict_zip_def)

lemma demo_fs_simps:
  "path_exists (demo_fs c b) ''baseline/app_config.yaml''"
  "safe_load (demo_fs c b) ''app.conf'' = c"
  "safe_load (demo_fs c b) ''baseline/app_config.yaml'' = b"
  by (simp_all add: demo_fs_def fs_of_def)

lemma demo_baseline_path: "path_join ''baseline'' ''app_config.yaml'' = ''baseline/app_config.yaml''"
  by (simp add: path_join_def)

lemma demo_fs_no_baseline_simps:
  "\<not> path_exists demo_fs_no_baseline ''baseline/app_config.yaml''"
  by (simp add: demo_fs_no_baseline_def fs_of_def)

lemma on_modified_local:
  "on_modified lib fsys ev s =
     s\<lparr>trace := trace s @ trace (on_modified lib fsys ev \<lparr>handler = handler s, trace = []\<rparr>)\<rparr>"
  by (simp add: on_modified_def check_config_drift_def split: prod.splits option.splits)

lemma spec_differ_simps:
  "DeepDiff spec_differ b c = Inr (compare b c)"
  "truthy spec_differ d = (d \<noteq> [])"
  "render spec_differ d = Inr (render_diff d)"
  by (simp_all add: spec_differ_def)

lemma compare_value1_value2:
  "compare value1 value2 =
     [DiffEntry [''setting1''] Changed (Some (Scalar (SStr ''value1''))) (Some (Scalar (SStr ''value2'')))]"
  by (simp add: compare_def value1_def value2_def)

lemma unrenderable_simps:
  "DeepDiff unrenderable b c = Inr (compare b c)"
  "truthy unrenderable d = (d \<noteq> [])"
  "render unrenderable d = Inl (OtherError ''cannot format'')"
  by (simp_all add: unrenderable_def spec_differ_def)

text \<open>The branches of a check, one lemma each.\<close>

lemma check_compared:
  assumes "config_files (handler s) p = Some name"
    and "bp = path_join (baseline_dir (handler s)) (name @ ''.yaml'')"
    and "path_exists fsys bp"
    and "safe_load fsys p = Inr c"
    and "safe_load fsys bp = Inr b"
    and "DeepDiff lib b c = Inr d"
  shows "check_config_drift lib fsys p s =
    s\<lparr>trace := trace s @ [PathExists bp, OpenLoad p, OpenLoad bp] @
      (if truthy lib d then
         (case render lib d of
            Inl e \<Rightarrow> [error_record p e]
          | Inr shown \<Rightarrow>
              [Emit WARNING (''Configuration drift detected in '' @ name @ '' ('' @ p @
                              ''):\<newline>'' @ shown)])
       else [Emit INFO (''No configuration drift detected in '' @ name @ ''.'')])\<rparr>"
  using assms
  by (simp add: check_config_drift_def try_body_def Let_def split: sum.splits)

lemma check_missing_baseline:
  assumes "config_files (handler s) p = Some name"
    and "bp = path_join (baseline_dir (handler s)) (name @ ''.yaml'')"
    and "\<not> path_exists fsys bp"
  shows "check_config_drift lib fsys p s =
    s\<lparr>trace := trace s @ [PathExists bp, Emit ERROR (''Baseline file not found: '' @ bp)]\<rparr>"
  using assms
  by (simp add: check_config_drift_def try_body_def Let_def)

lemma check_load_fails:
  assumes "config_files (handler s) p = Some name"
    and "bp = path_join (baseline_dir (handler s)) (name @ ''.yaml'')"
    and "path_exists fsys bp"
  shows "safe_load fsys p = Inl e \<Longrightarrow>
      check_config_drift lib fsys p s =
        s\<lparr>trace := trace s @ [PathExists bp, OpenLoad p, error_record p e]\<rparr>"
    and "safe_load fsys p = Inr c \<Longrightarrow> safe_load fsys bp = Inl e \<Longrightarrow>
      check_config_drift lib fsys p s =
        s\<lparr>trace := trace s @ [PathExists bp, OpenLoad p, OpenLoad bp, error_record p e]\<rparr>"
    and "safe_load fsys p = Inr c \<Longrightarrow> safe_load fsys bp = Inr b \<Longrightarrow> DeepDiff lib b c = Inl e \<Longrightarrow>
      check_config_drift lib fsys p s =
        s\<lparr>trace := trace s @ [PathExists bp, OpenLoad p, OpenLoad bp, error_record p e]\<rparr>"
  using assms
  by (simp_all add: check_config_drift_def try_body_def Let_def)

lemma on_modified_tracked:
  "\<not> is_directory ev \<Longrightarrow> config_files (handler s) (src_path ev) = Some name \<Longrightarrow>
   on_modified lib fsys ev s = check_config_drift lib fsys (src_path ev) s"
  by (simp add: on_modified_def dom_def)





text \<open>Comparison with the mapping without keys.\<close>

lemma concat_present:
  "\<forall>k \<in> set ks. map_of m k \<noteq> None \<Longrightarrow>
   concat (map (\<lambda>k. case map_of m k of Some v \<Rightarrow> [g k (Some v)] | None \<Rightarrow> []) ks) =
     map (\<lambda>k. g k (map_of m k)) ks"
  by (induction ks) auto

lemma keys_present: "\<forall>k \<in> set (remdups (map fst m)). map_of m k \<noteq> None"
  by (auto simp: map_of_eq_None_iff)

lemma compare_with_empty_map:
  "compare (Map m) (Map []) =
     map (\<lambda>k. DiffEntry [k] Removed (map_of m k) None) (remdups (map fst m))"
  "compare (Map []) (Map m) =
     map (\<lambda>k. DiffEntry [k] Added None (map_of m k)) (remdups (map fst m))"
proof -
  have "compare (Map m) (Map []) =
      concat (map (\<lambda>k. case map_of m k of
                          Some v \<Rightarrow> [DiffEntry [k] Removed (Some v) None] | None \<Rightarrow> [])
        (remdups (map fst m)))"
    by (simp add: compare_def cong: option.case_cong)
  also have "\<dots> = map (\<lambda>k. DiffEntry [k] Removed (map_of m k) None) (remdups (map fst m))"
    using keys_present [of m]
    by (rule concat_present [where g = "\<lambda>k v. DiffEntry [k] Removed v None"])
  finally show "compare (Map m) (Map []) =
      map (\<lambda>k. DiffEntry [k] Removed (map_of m k) None) (remdups (map fst m))" .
  have "compare (Map []) (Map m) =
      concat (map (\<lambda>k. case map_of m k of
                          Some v \<Rightarrow> [DiffEntry [k] Added None (Some v)] | None \<Rightarrow> [])
        (remdups (map fst m)))"
    by (simp add: compare_def cong: option.case_cong)
  also have "\<dots> = map (\<lambda>k. DiffEntry [k] Added None (map_of m k)) (remdups (map fst m))"
    using keys_present [of m]
    by (rule concat_present [where g = "\<lambda>k v. DiffEntry [k] Added None v"])
  finally show "compare (Map []) (Map m) =
      map (\<lambda>k. DiffEntry [k] Added None (map_of m k)) (remdups (map fst m))" .
qed

lemma canon_nested: "canon nested1 = canon nested2"
proof -
  have "fmap_of_list [(''a'', Atom SNull), (''b'', Atom (SInt 1))] =
      fmap_of_list [(''b'', Atom (SInt 1)), (''a'', Atom SNull)]"
    by (rule fmap_ext) auto
  then show ?thesis
    by (simp add: nested1_def nested2_def add_mset_commute)
qed





section \<open>C1: a document compared with itself\<close>

text \<open>
  Claim C1. For every document \<open>d\<close> the comparison of \<open>d\<close> with itself yields the empty
  diff, so a check of a tracked file whose content equals its baseline reports no drift:
  it tests the baseline path, loads the two files and logs the record "No configuration
  drift detected" at info severity. The comparator is the one of the specification.
\<close>

theorem diff_reflexive:
  "compare d d = [] \<and>
   (config_files (handler s) p = Some name \<and>
    path_exists fsys (path_join (baseline_dir (handler s)) (name @ ''.yaml'')) \<and>
    safe_load fsys p = Inr d \<and>
    safe_load fsys (path_join (baseline_dir (handler s)) (name @ ''.yaml'')) = Inr d \<longrightarrow>
    check_config_drift spec_differ fsys p s =
      s\<lparr>trace := trace s @
        [PathExists (path_join (baseline_dir (handler s)) (name @ ''.yaml'')),
         OpenLoad p,
         OpenLoad (path_join (baseline_dir (handler s)) (name @ ''.yaml'')),
         Emit INFO (''No configuration drift detected in '' @ name @ ''.'')]\<rparr>)"
  by (simp add: compare_def compare_at_refl check_config_drift_def try_body_def spec_differ_def
      Let_def)

theorem diff_reflexive_witness:
  "compare value1 value1 = [] \<and>
   check_config_drift spec_differ (demo_fs (Inr value1) (Inr value1)) ''app.conf'' demo_monitor =
     demo_monitor\<lparr>trace :=
       [PathExists ''baseline/app_config.yaml'', OpenLoad ''app.conf'',
        OpenLoad ''baseline/app_config.yaml'',
        Emit INFO ''No configuration drift detected in app_config.'']\<rparr>"
  using diff_reflexive [of value1 demo_monitor "''app.conf''" "''app_config''"
      "demo_fs (Inr value1) (Inr value1)"]
  by (simp add: demo_handler_simps demo_fs_simps demo_baseline_path)

section \<open>C2: sequences are compared without order\<close>

text \<open>
  Claim C2. Two documents that hold the sequences \<open>xs\<close> and \<open>ys\<close> under the same key have
  the empty diff when \<open>ys\<close> is a permutation of \<open>xs\<close>, and in general exactly when the two
  sequences have the same members with the same multiplicities, members being compared up
  to order themselves. At any depth, the diff of two documents is empty exactly when they
  are equal once every sequence is read as a multiset and every mapping as a finite map:
  reordering a list never gives a diff. Sequences of different length, as after adding,
  removing or duplicating a member, always give one. The comparator is the one of the
  specification.
\<close>

theorem order_insensitive:
  "(mset ys = mset xs \<longrightarrow> compare (Map [(k, Seq xs)]) (Map [(k, Seq ys)]) = []) \<and>
   (compare (Map [(k, Seq xs)]) (Map [(k, Seq ys)]) = [] \<longleftrightarrow>
      image_mset canon (mset xs) = image_mset canon (mset ys)) \<and>
   (compare a b = [] \<longleftrightarrow> canon a = canon b) \<and>
   (length xs \<noteq> length ys \<longrightarrow> compare (Map [(k, Seq xs)]) (Map [(k, Seq ys)]) \<noteq> [])"
proof -
  have at_key: "compare (Map [(k, Seq xs)]) (Map [(k, Seq ys)]) = [] \<longleftrightarrow>
      image_mset canon (mset xs) = image_mset canon (mset ys)"
    by (simp only: compare_singleton_map compare_seq_empty_iff)
  have sizes: "length xs = length ys"
    if "image_mset canon (mset xs) = image_mset canon (mset ys)"
  proof -
    from that have "size (image_mset canon (mset xs)) = size (image_mset canon (mset ys))"
      by simp
    then show ?thesis by simp
  qed
  show ?thesis
    using at_key sizes by (auto simp: compare_def compare_at_empty_iff)
qed

theorem order_insensitive_witness:
  "compare (Map [(''hosts'', Seq [Scalar (SStr ''a''), Scalar (SStr ''b''), Scalar (SStr ''a'')])])
           (Map [(''hosts'', Seq [Scalar (SStr ''b''), Scalar (SStr ''a''), Scalar (SStr ''a'')])]) = [] \<and>
   compare nested1 nested2 = [] \<and>
   compare (Map [(''hosts'', Seq [Scalar (SStr ''a''), Scalar (SStr ''b'')])])
           (Map [(''hosts'', Seq [Scalar (SStr ''a''), Scalar (SStr ''b''), Scalar (SStr ''a'')])]) \<noteq> [] \<and>
   compare (Map [(''hosts'', Seq [Scalar (SStr ''a''), Scalar (SStr ''b'')])])
           (Map [(''hosts'', Seq [Scalar (SStr ''b'')])]) \<noteq> []"
  using order_insensitive [of "[Scalar (SStr ''b''), Scalar (SStr ''a''), Scalar (SStr ''a'')]"
      "[Scalar (SStr ''a''), Scalar (SStr ''b''), Scalar (SStr ''a'')]" "''hosts''" nested1 nested2]
    order_insensitive [of "[Scalar (SStr ''a''), Scalar (SStr ''b''), Scalar (SStr ''a'')]"
      "[Scalar (SStr ''a''), Scalar (SStr ''b'')]" "''hosts''" nested1 nested2]
    order_insensitive [of "[Scalar (SStr ''b'')]"
      "[Scalar (SStr ''a''), Scalar (SStr ''b'')]" "''hosts''" nested1 nested2]
    canon_nested
  by simp

section \<open>C8: which events are checked\<close>

text \<open>
  Claim C8. An event for a directory, or for a path that is not a key of the handler's
  \<open>config_files\<close>, leaves the monitor as it is: no check, no load, no log record and no
  change of state. Every other event runs \<open>check_config_drift\<close> on the event's path, and
  that does change the monitor's trace.
\<close>

theorem event_filtering:
  "(is_directory ev \<or> src_path ev \<notin> dom (config_files (handler s)) \<longrightarrow>
      on_modified lib fsys ev s = s) \<and>
   (\<not> is_directory ev \<and> src_path ev \<in> dom (config_files (handler s)) \<longrightarrow>
      on_modified lib fsys ev s = check_config_drift lib fsys (src_path ev) s \<and>
      on_modified lib fsys ev s \<noteq> s)"
  by (simp add: on_modified_def check_changes_state)

theorem event_filtering_witness:
  "on_modified spec_differ (demo_fs (Inr value1) (Inr value1))
      \<lparr>is_directory = True, src_path = ''app.conf''\<rparr> demo_monitor = demo_monitor \<and>
   on_modified spec_differ (demo_fs (Inr value1) (Inr value1))
      \<lparr>is_directory = False, src_path = ''other.conf''\<rparr> demo_monitor = demo_monitor \<and>
   on_modified spec_differ (demo_fs (Inr value1) (Inr value1)) app_conf_modified demo_monitor =
     check_config_drift spec_differ (demo_fs (Inr value1) (Inr value1)) ''app.conf'' demo_monitor \<and>
   on_modified spec_differ (demo_fs (Inr value1) (Inr value1)) app_conf_modified demo_monitor
     \<noteq> demo_monitor"
proof -
  have tracked: "''app.conf'' \<in> dom (config_files (handler demo_monitor))"
    by (simp add: demo_handler_simps dom_def)
  have untracked: "''other.conf'' \<notin> dom (config_files (handler demo_monitor))"
    by (simp add: demo_monitor_def make_handler_def demo_args_def dict_zip_def dom_def)
  show ?thesis
    using tracked untracked
      event_filtering [of "\<lparr>is_directory = True, src_path = ''app.conf''\<rparr>" demo_monitor
        spec_differ "demo_fs (Inr value1) (Inr value1)"]
      event_filtering [of "\<lparr>is_directory = False, src_path = ''other.conf''\<rparr>" demo_monitor
        spec_differ "demo_fs (Inr value1) (Inr value1)"]
      event_filtering [of app_conf_modified demo_monitor
        spec_differ "demo_fs (Inr value1) (Inr value1)"]
    by (auto simp: app_conf_modified_def)
qed

section \<open>C3: an empty file\<close>

text \<open>
  Claim C3. An empty file loads as the empty document, which is compared as the mapping
  without keys. Against a baseline mapping an empty current file gives one \<open>Removed\<close>
  entry for each key of the baseline, and no other entry; an empty baseline against a
  current mapping gives one \<open>Added\<close> entry for each key; two empty files have the empty
  diff. A check of an empty current file against a baseline with keys logs the drift
  warning with the \<open>Removed\<close> entries and raises nothing. The loader and the comparator
  are the ones of the specification.
\<close>

theorem empty_file_compared_as_empty_map:
  "compare (Map m) empty_document =
     map (\<lambda>k. DiffEntry [k] Removed (map_of m k) None) (remdups (map fst m)) \<and>
   compare empty_document (Map m) =
     map (\<lambda>k. DiffEntry [k] Added None (map_of m k)) (remdups (map fst m)) \<and>
   compare empty_document empty_document = [] \<and>
   (config_files (handler s) p = Some name \<and>
    path_exists fsys (path_join (baseline_dir (handler s)) (name @ ''.yaml'')) \<and>
    safe_load fsys p = Inr empty_document \<and>
    safe_load fsys (path_join (baseline_dir (handler s)) (name @ ''.yaml'')) = Inr (Map m) \<and>
    m \<noteq> [] \<longrightarrow>
    check_config_drift spec_differ fsys p s =
      s\<lparr>trace := trace s @
        [PathExists (path_join (baseline_dir (handler s)) (name @ ''.yaml'')),
         OpenLoad p,
         OpenLoad (path_join (baseline_dir (handler s)) (name @ ''.yaml'')),
         Emit WARNING (''Configuration drift detected in '' @ name @ '' ('' @ p @
           ''):\<newline>'' @
           render_diff (map (\<lambda>k. DiffEntry [k] Removed (map_of m k) None)
             (remdups (map fst m))))]\<rparr>)"
proof -
  have a: "compare (Map m) empty_document =
      map (\<lambda>k. DiffEntry [k] Removed (map_of m k) None) (remdups (map fst m))"
    and b: "compare empty_document (Map m) =
      map (\<lambda>k. DiffEntry [k] Added None (map_of m k)) (remdups (map fst m))"
    by (simp_all only: empty_document_def compare_with_empty_map)
  have c: "compare empty_document empty_document = []"
    by (simp add: compare_def compare_at_refl)
  have d: "m \<noteq> [] \<Longrightarrow> compare (Map m) empty_document \<noteq> []"
    by (simp add: a)
  show ?thesis
    using a b c d
    by (auto simp: check_compared [where lib = spec_differ and d = "compare (Map m) empty_document"]
        spec_differ_simps)
qed

theorem empty_file_compared_as_empty_map_witness:
  "compare value1 empty_document =
     [DiffEntry [''setting1''] Removed (Some (Scalar (SStr ''value1''))) None] \<and>
   compare empty_document value1 =
     [DiffEntry [''setting1''] Added None (Some (Scalar (SStr ''value1'')))] \<and>
   compare empty_document empty_document = [] \<and>
   check_config_drift spec_differ (demo_fs (Inr empty_document) (Inr value1)) ''app.conf''
      demo_monitor =
     demo_monitor\<lparr>trace :=
       [PathExists ''baseline/app_config.yaml'', OpenLoad ''app.conf'',
        OpenLoad ''baseline/app_config.yaml'',
        Emit WARNING
          ''Configuration drift detected in app_config (app.conf):\<newline>Removed at root/setting1\<newline>'']\<rparr>"
  using empty_file_compared_as_empty_map [of "[(''setting1'', Scalar (SStr ''value1''))]"
      demo_monitor "''app.conf''" "''app_config''" "demo_fs (Inr empty_document) (Inr value1)"]
  by (simp add: demo_handler_simps demo_fs_simps demo_baseline_path value1_def render_diff_def)

section \<open>C4: a tracked file without a baseline\<close>

text \<open>
  Claim C4, as amended. When a modification event for a tracked file finds no baseline
  file at \<^verbatim>\<open>os.path.join(baseline_dir, name + ".yaml")\<close>, the handler tests that path,
  logs "Baseline file not found" at error severity and returns: it opens no file and
  raises nothing. The monitor records no drift state: of its state only the trace grows,
  and the run goes on with the next signal from there.
\<close>

theorem missing_baseline_logged:
  assumes "\<not> is_directory ev"
    and "config_files (handler s) (src_path ev) = Some name"
    and "bp = path_join (baseline_dir (handler s)) (name @ ''.yaml'')"
    and "\<not> path_exists fsys bp"
  shows "on_modified lib fsys ev s =
           s\<lparr>trace := trace s @ [PathExists bp, Emit ERROR (''Baseline file not found: '' @ bp)]\<rparr> \<and>
         run_loop lib (Notify fsys ev # rest) s =
           run_loop lib rest
             (s\<lparr>trace := trace s @
                [PathExists bp, Emit ERROR (''Baseline file not found: '' @ bp)]\<rparr>)"
proof -
  have "on_modified lib fsys ev s = check_config_drift lib fsys (src_path ev) s"
    using assms(1,2) by (rule on_modified_tracked)
  also have "\<dots> = s\<lparr>trace := trace s @
      [PathExists bp, Emit ERROR (''Baseline file not found: '' @ bp)]\<rparr>"
    using assms(2,3,4) by (rule check_missing_baseline)
  finally show ?thesis by simp
qed

theorem missing_baseline_logged_witness:
  "on_modified spec_differ demo_fs_no_baseline app_conf_modified demo_monitor =
     demo_monitor\<lparr>trace :=
       [PathExists ''baseline/app_config.yaml'',
        Emit ERROR ''Baseline file not found: baseline/app_config.yaml'']\<rparr> \<and>
   run_loop spec_differ [Notify demo_fs_no_baseline app_conf_modified, Interrupt] demo_monitor =
     Some (demo_monitor\<lparr>trace :=
       [PathExists ''baseline/app_config.yaml'',
        Emit ERROR ''Baseline file not found: baseline/app_config.yaml'']\<rparr>)"
proof -
  have a: "\<not> is_directory app_conf_modified"
    and b: "config_files (handler demo_monitor) (src_path app_conf_modified) = Some ''app_config''"
    by (simp_all add: app_conf_modified_def demo_handler_simps)
  have c: "''baseline/app_config.yaml'' =
      path_join (baseline_dir (handler demo_monitor)) (''app_config'' @ ''.yaml'')"
    by (simp add: demo_handler_simps demo_baseline_path)
  have d: "\<not> path_exists demo_fs_no_baseline ''baseline/app_config.yaml''"
    by (rule demo_fs_no_baseline_simps)
  show ?thesis
    using missing_baseline_logged [OF a b c d, of spec_differ "[Interrupt]"]
    by (simp add: demo_handler_simps)
qed

text \<open>
  The claim as stated fails: after the check the monitor is, but for its trace, the monitor
  it was before. Nothing in it holds \<^verbatim>\<open>Error(BaselineMissing)\<close>, or any other state of
  a tracked file.
\<close>

theorem missing_baseline_keeps_no_state:
  "(on_modified spec_differ demo_fs_no_baseline app_conf_modified demo_monitor)\<lparr>trace := []\<rparr> =
     demo_monitor \<and>
   trace (on_modified spec_differ demo_fs_no_baseline app_conf_modified demo_monitor) =
     [PathExists ''baseline/app_config.yaml'',
      Emit ERROR ''Baseline file not found: baseline/app_config.yaml'']"
proof -
  have "on_modified spec_differ demo_fs_no_baseline app_conf_modified demo_monitor =
      check_config_drift spec_differ demo_fs_no_baseline ''app.conf'' demo_monitor"
    using on_modified_tracked [of app_conf_modified demo_monitor "''app_config''"]
    by (simp add: app_conf_modified_def demo_handler_simps)
  also have "\<dots> = demo_monitor\<lparr>trace := trace demo_monitor @
      [PathExists ''baseline/app_config.yaml'',
       Emit ERROR (''Baseline file not found: '' @ ''baseline/app_config.yaml'')]\<rparr>"
    by (rule check_missing_baseline [where name = "''app_config''"])
      (simp_all add: demo_handler_simps demo_baseline_path demo_fs_no_baseline_simps)
  finally show ?thesis
    by (simp add: demo_handler_simps)
qed

section \<open>C5: failures of a check\<close>

text \<open>
  Claim C5, as amended. When the current file cannot be opened or parsed, or the baseline
  cannot, or the comparison raises, the handler of line 88 logs one record at error
  severity that names the tracked path and the exception, and the check returns. The file
  that failed first ends the \<^verbatim>\<open>try\<close> block, so a failing current file leaves the
  baseline unopened. The kind of failure is not classified and no state is recorded: the
  handler object is unchanged, and a later event is handled exactly as it would be by a
  monitor that has seen nothing.
\<close>

theorem check_failure_contained:
  assumes "config_files (handler s) p = Some name"
    and "bp = path_join (baseline_dir (handler s)) (name @ ''.yaml'')"
    and "path_exists fsys bp"
  shows "(safe_load fsys p = Inl e \<longrightarrow>
            check_config_drift lib fsys p s =
              s\<lparr>trace := trace s @ [PathExists bp, OpenLoad p, error_record p e]\<rparr>) \<and>
         (safe_load fsys p = Inr c \<and> safe_load fsys bp = Inl e \<longrightarrow>
            check_config_drift lib fsys p s =
              s\<lparr>trace := trace s @ [PathExists bp, OpenLoad p, OpenLoad bp, error_record p e]\<rparr>) \<and>
         (safe_load fsys p = Inr c \<and> safe_load fsys bp = Inr b \<and> DeepDiff lib b c = Inl e \<longrightarrow>
            check_config_drift lib fsys p s =
              s\<lparr>trace := trace s @ [PathExists bp, OpenLoad p, OpenLoad bp, error_record p e]\<rparr>) \<and>
         handler (check_config_drift lib fsys p s) = handler s \<and>
         on_modified lib fsys' ev' (check_config_drift lib fsys p s) =
           (check_config_drift lib fsys p s)
             \<lparr>trace := trace (check_config_drift lib fsys p s) @
                trace (on_modified lib fsys' ev' \<lparr>handler = handler s, trace = []\<rparr>)\<rparr>"
proof -
  have local: "on_modified lib fsys' ev' (check_config_drift lib fsys p s) =
      (check_config_drift lib fsys p s)
        \<lparr>trace := trace (check_config_drift lib fsys p s) @
           trace (on_modified lib fsys' ev' \<lparr>handler = handler s, trace = []\<rparr>)\<rparr>"
    using on_modified_local [of lib fsys' ev' "check_config_drift lib fsys p s"]
    by (simp add: handler_check)
  show ?thesis
    using check_load_fails(1) [OF assms, where e = e and lib = lib]
      check_load_fails(2) [OF assms, where c = c and e = e and lib = lib]
      check_load_fails(3) [OF assms, where c = c and b = b and e = e and lib = lib] local
    by (simp add: handler_check)
qed

theorem check_failure_contained_witness:
  "check_config_drift spec_differ (demo_fs malformed (Inr value1)) ''app.conf'' demo_monitor =
     demo_monitor\<lparr>trace :=
       [PathExists ''baseline/app_config.yaml'', OpenLoad ''app.conf'',
        error_record ''app.conf'' (YAMLError ''mapping values are not allowed here'')]\<rparr> \<and>
   check_config_drift spec_differ (demo_fs (Inr value1) malformed) ''app.conf'' demo_monitor =
     demo_monitor\<lparr>trace :=
       [PathExists ''baseline/app_config.yaml'', OpenLoad ''app.conf'',
        OpenLoad ''baseline/app_config.yaml'',
        error_record ''app.conf'' (YAMLError ''mapping values are not allowed here'')]\<rparr> \<and>
   handler (check_config_drift spec_differ (demo_fs malformed (Inr value1)) ''app.conf''
      demo_monitor) = handler demo_monitor"
proof -
  have bp: "''baseline/app_config.yaml'' =
      path_join (baseline_dir (handler demo_monitor)) (''app_config'' @ ''.yaml'')"
    by (simp add: demo_handler_simps demo_baseline_path)
  note a = check_failure_contained [OF demo_handler_simps(1) bp
      demo_fs_simps(1) [of malformed "Inr value1"],
      where lib = spec_differ and e = "YAMLError ''mapping values are not allowed here''"]
  note b = check_failure_contained [OF demo_handler_simps(1) bp
      demo_fs_simps(1) [of "Inr value1" malformed],
      where lib = spec_differ and c = value1
        and e = "YAMLError ''mapping values are not allowed here''"]
  show ?thesis
    using a b by (simp add: demo_fs_simps demo_handler_simps malformed_def)
qed

text \<open>
  The claim as stated fails: after a check whose current file is malformed the monitor is,
  but for its trace, the monitor it was before, and the one record logged is the generic
  error record. Nothing holds \<^verbatim>\<open>Error(ParseFailure)\<close>.
\<close>

theorem check_failure_keeps_no_state:
  "(check_config_drift spec_differ (demo_fs malformed (Inr value1)) ''app.conf'' demo_monitor)
      \<lparr>trace := []\<rparr> = demo_monitor \<and>
   log_of (trace (check_config_drift spec_differ (demo_fs malformed (Inr value1)) ''app.conf''
      demo_monitor)) =
     [(ERROR, ''Error checking configuration drift for app.conf: mapping values are not allowed here'')]"
proof -
  have "check_config_drift spec_differ (demo_fs malformed (Inr value1)) ''app.conf'' demo_monitor =
      demo_monitor\<lparr>trace := trace demo_monitor @
        [PathExists ''baseline/app_config.yaml'', OpenLoad ''app.conf'',
         error_record ''app.conf'' (YAMLError ''mapping values are not allowed here'')]\<rparr>"
    by (rule check_load_fails(1) [where name = "''app_config''"])
      (simp_all add: demo_handler_simps demo_baseline_path demo_fs_simps malformed_def)
  then show ?thesis
    by (simp add: demo_handler_simps error_record_def)
qed

section \<open>C9: the severity of the record a check logs\<close>

text \<open>
  Claim C9, as amended. A check of a tracked file logs at error severity when the baseline
  is missing, at info severity when the comparison finds no difference, and at warning
  severity, with the rendered diff in the message, when it finds one and the diff can be
  formatted. When the diff cannot be formatted, the exception is caught by the handler of
  line 88 like any other: the record is logged at error severity and carries the
  exception's text, not the diff. Every exception raised in the \<^verbatim>\<open>try\<close> block ends in
  such an error record.
\<close>

theorem report_severity:
  assumes "config_files (handler s) p = Some name"
    and "bp = path_join (baseline_dir (handler s)) (name @ ''.yaml'')"
  shows "(\<not> path_exists fsys bp \<longrightarrow>
            log_of (trace (check_config_drift lib fsys p s)) =
              log_of (trace s) @ [(ERROR, ''Baseline file not found: '' @ bp)]) \<and>
         (path_exists fsys bp \<and> safe_load fsys p = Inr c \<and> safe_load fsys bp = Inr b \<and>
          DeepDiff lib b c = Inr d \<and> \<not> truthy lib d \<longrightarrow>
            log_of (trace (check_config_drift lib fsys p s)) =
              log_of (trace s) @
              [(INFO, ''No configuration drift detected in '' @ name @ ''.'')]) \<and>
         (path_exists fsys bp \<and> safe_load fsys p = Inr c \<and> safe_load fsys bp = Inr b \<and>
          DeepDiff lib b c = Inr d \<and> truthy lib d \<and> render lib d = Inr shown \<longrightarrow>
            log_of (trace (check_config_drift lib fsys p s)) =
              log_of (trace s) @
              [(WARNING, ''Configuration drift detected in '' @ name @ '' ('' @ p @
                          ''):\<newline>'' @ shown)]) \<and>
         (path_exists fsys bp \<and> safe_load fsys p = Inr c \<and> safe_load fsys bp = Inr b \<and>
          DeepDiff lib b c = Inr d \<and> truthy lib d \<and> render lib d = Inl e \<longrightarrow>
            log_of (trace (check_config_drift lib fsys p s)) =
              log_of (trace s) @
              [(ERROR, ''Error checking configuration drift for '' @ p @ '': '' @ exn_str e)]) \<and>
         (try_body lib (handler s) fsys p = (acts, Some e) \<longrightarrow>
            log_of (trace (check_config_drift lib fsys p s)) =
              log_of (trace s) @ log_of acts @
              [(ERROR, ''Error checking configuration drift for '' @ p @ '': '' @ exn_str e)])"
proof -
  have missing: "\<not> path_exists fsys bp \<Longrightarrow>
      log_of (trace (check_config_drift lib fsys p s)) =
        log_of (trace s) @ [(ERROR, ''Baseline file not found: '' @ bp)]"
    using check_missing_baseline [OF assms, of fsys lib] by (simp add: log_of_append)
  have compared: "path_exists fsys bp \<Longrightarrow> safe_load fsys p = Inr c \<Longrightarrow>
      safe_load fsys bp = Inr b \<Longrightarrow> DeepDiff lib b c = Inr d \<Longrightarrow>
      log_of (trace (check_config_drift lib fsys p s)) =
        log_of (trace s) @
        (if truthy lib d then
           (case render lib d of
              Inl e \<Rightarrow>
                [(ERROR, ''Error checking configuration drift for '' @ p @ '': '' @ exn_str e)]
            | Inr shown \<Rightarrow>
                [(WARNING, ''Configuration drift detected in '' @ name @ '' ('' @ p @
                            ''):\<newline>'' @ shown)])
         else [(INFO, ''No configuration drift detected in '' @ name @ ''.'')])"
    using check_compared [OF assms, of fsys c b lib d]
    by (simp add: log_of_append error_record_def split: sum.splits)
  have raised: "try_body lib (handler s) fsys p = (acts, Some e) \<Longrightarrow>
      log_of (trace (check_config_drift lib fsys p s)) =
        log_of (trace s) @ log_of acts @
        [(ERROR, ''Error checking configuration drift for '' @ p @ '': '' @ exn_str e)]"
    by (simp add: check_config_drift_def log_of_append error_record_def)
  show ?thesis
    using missing compared raised by simp
qed

theorem report_severity_witness:
  "log_of (trace (check_config_drift spec_differ demo_fs_no_baseline ''app.conf'' demo_monitor)) =
     [(ERROR, ''Baseline file not found: baseline/app_config.yaml'')] \<and>
   log_of (trace (check_config_drift spec_differ (demo_fs (Inr value1) (Inr value1)) ''app.conf''
       demo_monitor)) =
     [(INFO, ''No configuration drift detected in app_config.'')] \<and>
   log_of (trace (check_config_drift spec_differ (demo_fs (Inr value2) (Inr value1)) ''app.conf''
       demo_monitor)) =
     [(WARNING, ''Configuration drift detected in app_config (app.conf):\<newline>Changed at root/setting1\<newline>'')] \<and>
   log_of (trace (check_config_drift unrenderable (demo_fs (Inr value2) (Inr value1)) ''app.conf''
       demo_monitor)) =
     [(ERROR, ''Error checking configuration drift for app.conf: cannot format'')]"
proof -
  have bp: "''baseline/app_config.yaml'' =
      path_join (baseline_dir (handler demo_monitor)) (''app_config'' @ ''.yaml'')"
    by (simp add: demo_handler_simps demo_baseline_path)
  note sev = report_severity [OF demo_handler_simps(1) bp]
  have a: "log_of (trace (check_config_drift spec_differ demo_fs_no_baseline ''app.conf''
      demo_monitor)) = [(ERROR, ''Baseline file not found: baseline/app_config.yaml'')]"
    using sev [where fsys = demo_fs_no_baseline and lib = spec_differ]
    by (simp add: demo_fs_no_baseline_simps demo_handler_simps)
  have b: "log_of (trace (check_config_drift spec_differ (demo_fs (Inr value1) (Inr value1))
      ''app.conf'' demo_monitor)) = [(INFO, ''No configuration drift detected in app_config.'')]"
    using sev [where fsys = "demo_fs (Inr value1) (Inr value1)" and lib = spec_differ
        and c = value1 and b = value1 and d = "[]"]
    by (simp add: demo_fs_simps demo_handler_simps spec_differ_simps compare_def compare_at_refl)
  have c: "log_of (trace (check_config_drift spec_differ (demo_fs (Inr value2) (Inr value1))
      ''app.conf'' demo_monitor)) =
      [(WARNING, ''Configuration drift detected in app_config (app.conf):\<newline>Changed at root/setting1\<newline>'')]"
    using sev [where fsys = "demo_fs (Inr value2) (Inr value1)" and lib = spec_differ
        and c = value2 and b = value1 and d = "compare value1 value2"
        and shown = "''Changed at root/setting1\<newline>''"]
    by (simp add: demo_fs_simps demo_handler_simps spec_differ_simps compare_value1_value2
        render_diff_def)
  have d: "log_of (trace (check_config_drift unrenderable (demo_fs (Inr value2) (Inr value1))
      ''app.conf'' demo_monitor)) =
      [(ERROR, ''Error checking configuration drift for app.conf: cannot format'')]"
    using sev [where fsys = "demo_fs (Inr value2) (Inr value1)" and lib = unrenderable
        and c = value2 and b = value1 and d = "compare value1 value2"
        and e = "OtherError ''cannot format''"]
    by (simp add: demo_fs_simps demo_handler_simps unrenderable_simps compare_value1_value2)
  show ?thesis
    using a b c d by simp
qed

text \<open>
  The claim as stated fails: with a library whose result cannot be formatted, a check that
  finds drift logs at error severity, and neither the record nor anything else the check
  does holds the diff.
\<close>

theorem unrenderable_drift_logged_as_error:
  "compare value1 value2 \<noteq> [] \<and>
   trace (check_config_drift unrenderable (demo_fs (Inr value2) (Inr value1)) ''app.conf''
       demo_monitor) =
     [PathExists ''baseline/app_config.yaml'', OpenLoad ''app.conf'',
      OpenLoad ''baseline/app_config.yaml'',
      Emit ERROR ''Error checking configuration drift for app.conf: cannot format'']"
proof -
  have "check_config_drift unrenderable (demo_fs (Inr value2) (Inr value1)) ''app.conf''
      demo_monitor =
      demo_monitor\<lparr>trace := trace demo_monitor @
        [PathExists ''baseline/app_config.yaml'', OpenLoad ''app.conf'',
         OpenLoad ''baseline/app_config.yaml''] @
        (if truthy unrenderable (compare value1 value2) then
           (case render unrenderable (compare value1 value2) of
              Inl e \<Rightarrow> [error_record ''app.conf'' e]
            | Inr shown \<Rightarrow>
                [Emit WARNING (''Configuration drift detected in '' @ ''app_config'' @ '' ('' @
                   ''app.conf'' @ ''):\<newline>'' @ shown)])
         else [Emit INFO (''No configuration drift detected in '' @ ''app_config'' @ ''.'')])\<rparr>"
    by (rule check_compared [where c = value2 and b = value1])
      (simp_all add: demo_handler_simps demo_baseline_path demo_fs_simps unrenderable_simps)
  then show ?thesis
    by (simp add: unrenderable_simps compare_value1_value2 demo_handler_simps error_record_def)
qed

section \<open>C6: start-up validation and exit status\<close>



section \<open>C7: every event is checked\<close>




section \<open>C10: paths are matched as strings\<close>

text \<open>
  Claim C10, as amended. With argument lists of equal length, the keys of the handler's
  dictionary are the \<^verbatim>\<open>--config-files\<close> arguments as given. An event that is not for a
  directory runs a check if and only if its path is equal, as a string, to one of them;
  no path is normalised for the test, although the directory that is watched for a tracked
  file is the directory of its absolute path. A tracked file given by a relative path is
  therefore not checked on an event that reports its absolute path.
\<close>

theorem exact_path_matching:
  assumes "length (arg_config_files a) = length (arg_config_names a)"
    and "handler s = make_handler a"
    and "\<not> is_directory ev"
  shows "(src_path ev \<in> set (arg_config_files a) \<longrightarrow>
            on_modified lib fsys ev s = check_config_drift lib fsys (src_path ev) s \<and>
            on_modified lib fsys ev s \<noteq> s) \<and>
         (src_path ev \<notin> set (arg_config_files a) \<longrightarrow> on_modified lib fsys ev s = s) \<and>
         (\<forall>f \<in> set (arg_config_files a).
            Schedule (dirname (abspath fsys0 f)) \<in> set (watch_all fsys0 (arg_config_files a) []))"
proof -
  have "dom (config_files (handler s)) = set (arg_config_files a)"
    using assms(1,2) by (simp add: make_handler_def dom_dict_zip)
  moreover have "\<forall>f \<in> set (arg_config_files a).
      Schedule (dirname (abspath fsys0 f)) \<in> set (watch_all fsys0 (arg_config_files a) [])"
    using watch_all_covers [of _ "arg_config_files a" fsys0 "[]"] by simp
  ultimately show ?thesis
    using assms(3) by (simp add: on_modified_def check_changes_state)
qed

theorem exact_path_matching_witness:
  "abspath in_sync_fs ''app.conf'' = src_path app_conf_absolute \<and>
   on_modified spec_differ in_sync_fs app_conf_absolute demo_monitor = demo_monitor \<and>
   on_modified spec_differ in_sync_fs app_conf_modified demo_monitor \<noteq> demo_monitor \<and>
   Schedule ''/srv'' \<in> set (watch_all in_sync_fs (arg_config_files demo_args) [])"
proof -
  have len: "length (arg_config_files demo_args) = length (arg_config_names demo_args)"
    by (simp add: demo_args_def)
  have h: "handler demo_monitor = make_handler demo_args"
    by (simp add: demo_monitor_def)
  have a: "\<not> is_directory app_conf_absolute" "src_path app_conf_absolute \<notin> set (arg_config_files demo_args)"
    by (simp_all add: app_conf_absolute_def demo_args_def)
  have b: "\<not> is_directory app_conf_modified" "src_path app_conf_modified \<in> set (arg_config_files demo_args)"
    by (simp_all add: app_conf_modified_def demo_args_def)
  have c: "abspath in_sync_fs ''app.conf'' = src_path app_conf_absolute"
    "dirname (abspath in_sync_fs ''app.conf'') = ''/srv''"
    "''app.conf'' \<in> set (arg_config_files demo_args)"
    by (simp_all add: in_sync_fs_def demo_fs_def fs_of_def app_conf_absolute_def dirname_def
        demo_args_def)
  show ?thesis
    using a(2) b(2) c
      exact_path_matching [OF len h a(1), where lib = spec_differ and fsys = in_sync_fs
        and ?fsys0.0 = in_sync_fs]
      exact_path_matching [OF len h b(1), where lib = spec_differ and fsys = in_sync_fs
        and ?fsys0.0 = in_sync_fs]
    by auto
qed

text \<open>
  The claim as stated fails for directory events: an event for a directory whose path is
  equal to a tracked path runs no check (line 50).
\<close>

theorem directory_event_not_checked:
  "is_directory app_conf_directory \<and>
   src_path app_conf_directory \<in> set (arg_config_files demo_args) \<and>
   on_modified spec_differ in_sync_fs app_conf_directory demo_monitor = demo_monitor"
  by (simp add: app_conf_directory_def demo_args_def on_modified_def)

end
